theory Spec2Isabelle
  imports Complex_Main "HOL-Library.Sublist"
begin

section \<open>The lamppost weather scraper (scrape.py)\<close>

text \<open>
  The script reads lamppost locations, fetches one CSV feed per location, picks a fixed
  set of fields out of each feed by substring matching on the column names, and merges
  the rows into a CSV data set, dropping duplicates on the pair
  (measurement_datetime, lamppost_id).

  Strings are byte lists (UTF-8); a Python \<^verbatim>\<open>s in col\<close> on text is the contiguous-sublist
  test \<^const>\<open>sublist\<close> on the encoded bytes, since UTF-8 is self-synchronising.
\<close>

subsection \<open>Column matcher\<close>

text \<open>
  The inner loop of \<^verbatim>\<open>find_column_by_substring\<close>: \<^verbatim>\<open>ok\<close> starts as true and the loop
  leaves with \<^verbatim>\<open>ok = False\<close> at the first substring that is not in the column name.
\<close>

fun all_substrings_in :: "string list \<Rightarrow> string \<Rightarrow> bool" where
  "all_substrings_in [] col = True"
| "all_substrings_in (s # ss) col =
     (if \<not> sublist s col then False else all_substrings_in ss col)"

fun find_column_by_substring :: "string list \<Rightarrow> string list \<Rightarrow> string option" where
  "find_column_by_substring [] substrings = None"
| "find_column_by_substring (col # columns) substrings =
     (if all_substrings_in substrings col then Some col
      else find_column_by_substring columns substrings)"

subsection \<open>Values of the Python runtime\<close>

text \<open>
  The exceptions the script can meet. \<open>RequestException\<close> stands for every failure of
  the HTTP client other than a bad status (connection error, timeout, ...).
\<close>

datatype pyerr =
    ValueError | TypeError | OverflowError | IndexError
  | RequestException | HTTPError | UnicodeDecodeError | ParserError

text \<open>
  A Python float is modelled by the number it denotes: a rational, an infinity or NaN.
  Rounding to binary64 is not modelled.
\<close>

datatype pyfloat = Fin rat | PosInf | NegInf | NaNf

text \<open>
  A cell of a pandas row. \<open>CNone\<close> is a missing value (Python \<^verbatim>\<open>None\<close>, or the NaN pandas
  puts where a CSV cell is empty); the other constructors are the scalar types pandas
  infers for CSV columns.
\<close>

datatype cell = CNone | CBool bool | CInt int | CFloat pyfloat | CStr string

text \<open>
  A row (a pandas Series): its index labels with their cells, in index order. The labels
  of a row are distinct where it comes from a layer or from a CSV header, and
  \<^verbatim>\<open>row.get(c)\<close> is then the cell at the label.
\<close>

type_synonym row = "(string \<times> cell) list"

text \<open>
  A parsed feed: the column names and the rows, each row the cells under the columns, of
  the types \<^verbatim>\<open>iterrows\<close> hands them out in.
\<close>

record device_df =
  df_columns :: "string list"
  df_rows :: "cell list list"

record http_response =
  status_code :: nat
  content :: string

record datetime =
  dt_year :: int
  dt_month :: int
  dt_day :: int
  dt_hour :: int
  dt_minute :: int
  dt_second :: int

text \<open>
  What the script takes from its libraries and from the network, as parameters:
  \<^verbatim>\<open>float(s)\<close> on text (\<open>None\<close> is its ValueError), \<^verbatim>\<open>str(f)\<close> on a float,
  \<^verbatim>\<open>pd.to_datetime(s, errors="coerce")\<close> on one text value (\<open>None\<close> is NaT),
  \<^verbatim>\<open>session.get(url, timeout=15)\<close>, \<^verbatim>\<open>bytes.decode("utf-8")\<close> and \<^verbatim>\<open>pd.read_csv\<close>.
  The last field is the version of pandas where the script depends on it: up to
  pandas 2 \<^verbatim>\<open>pd.concat\<close> leaves a frame whose column holds no value out of the choice of
  the column's type, from pandas 3 on it does not.
\<close>

record env =
  float_of_str :: "string \<Rightarrow> pyfloat option"
  str_of_float :: "pyfloat \<Rightarrow> string"
  pd_to_datetime :: "string \<Rightarrow> datetime option"
  session_get :: "string \<Rightarrow> pyerr + http_response"
  decode_utf8 :: "string \<Rightarrow> pyerr + string"
  pd_read_csv :: "string \<Rightarrow> pyerr + device_df"
  concat_drops_all_na :: bool

text \<open>\<^verbatim>\<open>pd.isna(v)\<close> on a scalar.\<close>

definition isna :: "cell \<Rightarrow> bool" where
  "isna v = (v = CNone \<or> v = CFloat NaNf)"

text \<open>
  \<^verbatim>\<open>float(v)\<close>. An integer cell converts to the float of the same value; this is exact
  up to \<open>2^53\<close>, and beyond it the float stays beyond \<open>2^53\<close>, far outside every range
  the script accepts an integer in.
\<close>

definition py_float :: "env \<Rightarrow> cell \<Rightarrow> pyerr + pyfloat" where
  "py_float env v =
     (case v of
        CNone \<Rightarrow> Inl TypeError
      | CBool b \<Rightarrow> Inr (Fin (if b then 1 else 0))
      | CInt i \<Rightarrow> Inr (Fin (of_int i))
      | CFloat f \<Rightarrow> Inr f
      | CStr s \<Rightarrow> (case float_of_str env s of None \<Rightarrow> Inl ValueError | Some f \<Rightarrow> Inr f))"

text \<open>\<^verbatim>\<open>int(f)\<close> on a float truncates towards zero and raises on infinities and NaN.\<close>

definition py_int :: "pyfloat \<Rightarrow> pyerr + int" where
  "py_int f =
     (case f of
        Fin q \<Rightarrow> Inr (if 0 \<le> q then \<lfloor>q\<rfloor> else \<lceil>q\<rceil>)
      | PosInf \<Rightarrow> Inl OverflowError
      | NegInf \<Rightarrow> Inl OverflowError
      | NaNf \<Rightarrow> Inl ValueError)"

text \<open>Truthiness of a column name that may be \<^verbatim>\<open>None\<close>: \<^verbatim>\<open>None\<close> and \<^verbatim>\<open>""\<close> are false.\<close>

definition truthy :: "string option \<Rightarrow> bool" where
  "truthy c = (case c of None \<Rightarrow> False | Some s \<Rightarrow> s \<noteq> [])"

text \<open>\<^verbatim>\<open>row.get(col)\<close>: \<^verbatim>\<open>None\<close> when \<open>col\<close> is \<^verbatim>\<open>None\<close> or not a label of the row.\<close>

definition row_get :: "row \<Rightarrow> string option \<Rightarrow> cell" where
  "row_get r col =
     (case col of
        None \<Rightarrow> CNone
      | Some k \<Rightarrow> (case map_of r k of None \<Rightarrow> CNone | Some v \<Rightarrow> v))"

subsection \<open>The datetime constructor and strftime\<close>

definition is_leap :: "int \<Rightarrow> bool" where
  "is_leap y = (y mod 4 = 0 \<and> (y mod 100 \<noteq> 0 \<or> y mod 400 = 0))"

definition days_in_month :: "int \<Rightarrow> int \<Rightarrow> int" where
  "days_in_month y m =
     (if m = 2 then (if is_leap y then 29 else 28)
      else if m = 4 \<or> m = 6 \<or> m = 9 \<or> m = 11 then 30 else 31)"

definition c_int :: "int \<Rightarrow> bool" where
  "c_int i = (- (2 ^ 31) \<le> i \<and> i < 2 ^ 31)"

definition valid_datetime :: "int \<Rightarrow> int \<Rightarrow> int \<Rightarrow> int \<Rightarrow> int \<Rightarrow> int \<Rightarrow> bool" where
  "valid_datetime y mo da h mi s =
     (1 \<le> y \<and> y \<le> 9999 \<and> 1 \<le> mo \<and> mo \<le> 12 \<and> 1 \<le> da \<and> da \<le> days_in_month y mo
      \<and> 0 \<le> h \<and> h \<le> 23 \<and> 0 \<le> mi \<and> mi \<le> 59 \<and> 0 \<le> s \<and> s \<le> 59)"

text \<open>
  \<^verbatim>\<open>datetime(y, mo, da, h, mi, s)\<close>: OverflowError for an argument that is no C int,
  ValueError for one out of its range.
\<close>

definition datetime_new :: "int \<Rightarrow> int \<Rightarrow> int \<Rightarrow> int \<Rightarrow> int \<Rightarrow> int \<Rightarrow> pyerr + datetime" where
  "datetime_new y mo da h mi s =
     (if \<not> (c_int y \<and> c_int mo \<and> c_int da \<and> c_int h \<and> c_int mi \<and> c_int s) then Inl OverflowError
      else if \<not> valid_datetime y mo da h mi s then Inl ValueError
      else Inr \<lparr>dt_year = y, dt_month = mo, dt_day = da,
                dt_hour = h, dt_minute = mi, dt_second = s\<rparr>)"

definition digit_char :: "nat \<Rightarrow> char" where
  "digit_char d = ''0123456789'' ! (d mod 10)"

definition pad2 :: "int \<Rightarrow> string" where
  "pad2 n = [digit_char (nat n div 10), digit_char (nat n)]"

text \<open>The decimal text of a number, without leading zeros: \<^verbatim>\<open>str(i)\<close> on an integer.\<close>

function str_of_nat :: "nat \<Rightarrow> string" where
  "str_of_nat n =
     (if n < 10 then [digit_char n] else str_of_nat (n div 10) @ [digit_char n])"
  by pat_completeness auto
termination
  by (relation "measure id") auto

definition str_of_int :: "int \<Rightarrow> string" where
  "str_of_int i = (if i < 0 then ''-'' @ str_of_nat (nat (- i)) else str_of_nat (nat i))"

text \<open>
  \<^verbatim>\<open>dt.strftime("%Y-%m-%dT%H:%M:%S")\<close>. Python hands the format to the C library, and
  the C library of Linux writes \<^verbatim>\<open>%Y\<close> as the year without leading zeros: year 999 gives
  \<^verbatim>\<open>999-03-05T00:00:00\<close>. The other fields are two digits each, zero-padded.
\<close>

definition strftime_iso :: "datetime \<Rightarrow> string" where
  "strftime_iso dt =
     str_of_int (dt_year dt) @ ''-'' @ pad2 (dt_month dt) @ ''-'' @ pad2 (dt_day dt) @ ''T''
     @ pad2 (dt_hour dt) @ '':'' @ pad2 (dt_minute dt) @ '':'' @ pad2 (dt_second dt)"

subsection \<open>Datetime assembler\<close>

text \<open>The keys of \<^verbatim>\<open>SEARCH_KEYS\<close>, which are also the keys of the column map.\<close>

datatype search_key =
    Lamppost_id
  | Measurement_year | Measurement_month | Measurement_day
  | Measurement_hour | Measurement_minute | Measurement_second
  | Air_temperature | Relative_humidity | Device_height

text \<open>The inner function \<^verbatim>\<open>to_int_safe\<close>: every exception of the conversion is \<^verbatim>\<open>None\<close>.\<close>

definition to_int_safe :: "env \<Rightarrow> cell \<Rightarrow> int option" where
  "to_int_safe env v =
     (if isna v then None
      else (case py_float env v of
              Inl e \<Rightarrow> None
            | Inr f \<Rightarrow> (case py_int f of Inl e \<Rightarrow> None | Inr i \<Rightarrow> Some i)))"

text \<open>\<^verbatim>\<open>x or 0\<close> on the result of \<^verbatim>\<open>to_int_safe\<close>.\<close>

definition or_zero :: "int option \<Rightarrow> int" where
  "or_zero x = (case x of None \<Rightarrow> 0 | Some i \<Rightarrow> i)"

text \<open>
  The body of the \<^verbatim>\<open>try\<close> of \<^verbatim>\<open>build_measurement_datetime_from_row_using_columns\<close>:
  \<open>Inl\<close> is an exception raised inside it, \<open>Inr\<close> the value it returns.
\<close>

definition build_measurement_datetime_try ::
  "env \<Rightarrow> row \<Rightarrow> (search_key \<Rightarrow> string option) \<Rightarrow> pyerr + string option" where
  "build_measurement_datetime_try env row cols_map =
     (let y_col = cols_map Measurement_year;
          m_col = cols_map Measurement_month;
          d_col = cols_map Measurement_day
      in if \<not> (truthy y_col \<and> truthy m_col \<and> truthy d_col) then Inr None
         else
           (let y = to_int_safe env (row_get row y_col);
                mo = to_int_safe env (row_get row m_col);
                da = to_int_safe env (row_get row d_col)
            in if y = None \<or> mo = None \<or> da = None then Inr None
               else
                 (let h = or_zero (to_int_safe env (row_get row (cols_map Measurement_hour)));
                      mi = or_zero (to_int_safe env (row_get row (cols_map Measurement_minute)));
                      s = or_zero (to_int_safe env (row_get row (cols_map Measurement_second)))
                  in (case datetime_new (the y) (the mo) (the da) h mi s of
                        Inl e \<Rightarrow> Inl e
                      | Inr dt \<Rightarrow> Inr (Some (strftime_iso dt))))))"

text \<open>The function itself: \<^verbatim>\<open>except Exception: return None\<close> around the body.\<close>

definition build_measurement_datetime_from_row_using_columns ::
  "env \<Rightarrow> row \<Rightarrow> (search_key \<Rightarrow> string option) \<Rightarrow> string option" where
  "build_measurement_datetime_from_row_using_columns env row cols_map =
     (case build_measurement_datetime_try env row cols_map of
        Inl e \<Rightarrow> None
      | Inr r \<Rightarrow> r)"

subsection \<open>Text of a cell, stripping, lower case\<close>

text \<open>
  \<^verbatim>\<open>str(v)\<close>. The script applies it only to cells that \<^verbatim>\<open>pd.notna\<close> has let through.
\<close>

definition py_str :: "env \<Rightarrow> cell \<Rightarrow> string" where
  "py_str env v =
     (case v of
        CNone \<Rightarrow> ''None''
      | CBool b \<Rightarrow> (if b then ''True'' else ''False'')
      | CInt i \<Rightarrow> str_of_int i
      | CFloat f \<Rightarrow> str_of_float env f
      | CStr s \<Rightarrow> s)"

text \<open>
  \<^verbatim>\<open>str.strip()\<close> and \<^verbatim>\<open>str.lower()\<close> on ASCII; the white space and the capital
  letters beyond ASCII are not modelled.
\<close>

definition is_space :: "char \<Rightarrow> bool" where
  "is_space c = (c \<in> set [CHR 0x09, CHR 0x0A, CHR 0x0B, CHR 0x0C, CHR 0x0D,
                           CHR 0x1C, CHR 0x1D, CHR 0x1E, CHR 0x1F, CHR 0x20])"

definition strip :: "string \<Rightarrow> string" where
  "strip s = rev (dropWhile is_space (rev (dropWhile is_space s)))"

definition lower_char :: "char \<Rightarrow> char" where
  "lower_char c =
     (case map_of (zip ''ABCDEFGHIJKLMNOPQRSTUVWXYZ'' ''abcdefghijklmnopqrstuvwxyz'') c of
        None \<Rightarrow> c
      | Some l \<Rightarrow> l)"

definition lower :: "string \<Rightarrow> string" where
  "lower s = map lower_char s"

subsection \<open>Choosing the device URL, parsing the feed\<close>

definition DEVICE_URL_COLUMNS :: "string list" where
  "DEVICE_URL_COLUMNS = [''DEVICE_04_DATA_URL'', ''DEVICE_02_DATA_URL'', ''DEVICE_01_DATA_URL'']"

fun find_active_url_in :: "env \<Rightarrow> row \<Rightarrow> string list \<Rightarrow> string option" where
  "find_active_url_in env row [] = None"
| "find_active_url_in env row (c # cs) =
     (case map_of row c of
        None \<Rightarrow> find_active_url_in env row cs
      | Some v \<Rightarrow>
          (if \<not> isna v \<and> strip (py_str env v) \<noteq> [] then Some (strip (py_str env v))
           else find_active_url_in env row cs))"

definition find_active_url_from_row :: "env \<Rightarrow> row \<Rightarrow> string option" where
  "find_active_url_from_row env row = find_active_url_in env row DEVICE_URL_COLUMNS"

definition try_parse_csv_bytes :: "env \<Rightarrow> string \<Rightarrow> pyerr + device_df" where
  "try_parse_csv_bytes env content_bytes =
     (case decode_utf8 env content_bytes of
        Inl e \<Rightarrow> Inl e
      | Inr text \<Rightarrow> pd_read_csv env text)"

subsection \<open>Device record extractor\<close>

fun SEARCH_KEYS :: "search_key \<Rightarrow> string list" where
  "SEARCH_KEYS Lamppost_id = [''Lamppost ID'']"
| "SEARCH_KEYS Measurement_year = [''Data measurement'', ''Year'']"
| "SEARCH_KEYS Measurement_month = [''Data measurement'', ''Month'']"
| "SEARCH_KEYS Measurement_day = [''Data measurement'', ''Day'']"
| "SEARCH_KEYS Measurement_hour = [''Data measurement'', ''Hour'']"
| "SEARCH_KEYS Measurement_minute = [''Data measurement'', ''Minute'']"
| "SEARCH_KEYS Measurement_second = [''Data measurement'', ''Second'']"
| "SEARCH_KEYS Air_temperature = [''Air temperature'']"
| "SEARCH_KEYS Relative_humidity = [''Relative humidity'']"
| "SEARCH_KEYS Device_height = [''Device height'']"

text \<open>
  A row of the frame the extractor returns, and a row of the data set: the caller adds
  three columns to the extractor's frame.
\<close>

record ext_row =
  lamppost_id :: cell
  measurement_datetime :: "string option"
  air_temperature_c :: cell
  relative_humidity_pct :: cell
  device_height_m :: cell

record out_row = ext_row +
  lp_latitude :: cell
  lp_longitude :: cell
  source_url :: cell

text \<open>What the script prints, and what it does to the output path.\<close>

datatype event =
    PrintCell cell
  | NoDeviceUrl nat
  | Fetching nat string
  | RequestFailed nat pyerr
  | ParseFailed nat pyerr
  | NoMatchingColumns nat
  | NoRowsCollected
  | CannotReadLayer
  | PathExists bool
  | ReadCsv
  | CouldNotReadExisting
  | DedupReport nat nat
  | WriteCsv "out_row list"
  | Saved

text \<open>The dictionary \<^verbatim>\<open>found\<close>.\<close>

definition found_columns :: "string list \<Rightarrow> search_key \<Rightarrow> string option" where
  "found_columns cols k = find_column_by_substring cols (SEARCH_KEYS k)"

text \<open>\<^verbatim>\<open>device_df.iloc[0,0]\<close>: IndexError on a frame without a row or without a column.\<close>

definition iloc_0_0 :: "device_df \<Rightarrow> pyerr + cell" where
  "iloc_0_0 df =
     (case df_rows df of
        [] \<Rightarrow> Inl IndexError
      | r # rs \<Rightarrow> (case zip (df_columns df) r of [] \<Rightarrow> Inl IndexError | (c, v) # cvs \<Rightarrow> Inr v))"

text \<open>\<^verbatim>\<open>float(x) if (x is not None and not pd.isna(x)) else None\<close>\<close>

definition float_or_none :: "env \<Rightarrow> cell \<Rightarrow> pyerr + cell" where
  "float_or_none env x =
     (if \<not> isna x then (case py_float env x of Inl e \<Rightarrow> Inl e | Inr f \<Rightarrow> Inr (CFloat f))
      else Inr CNone)"

text \<open>One round of the loop over \<^verbatim>\<open>device_df.iterrows()\<close>: the dictionary appended.\<close>

definition extract_row :: "env \<Rightarrow> (search_key \<Rightarrow> string option) \<Rightarrow> row \<Rightarrow> pyerr + ext_row" where
  "extract_row env found r =
     (let lamppost = (if truthy (found Lamppost_id) then row_get r (found Lamppost_id) else CNone);
          mdt = build_measurement_datetime_from_row_using_columns env r found;
          air_temp = (if truthy (found Air_temperature) then row_get r (found Air_temperature) else CNone);
          rel_hum = (if truthy (found Relative_humidity) then row_get r (found Relative_humidity) else CNone);
          dev_height = (if truthy (found Device_height) then row_get r (found Device_height) else CNone)
      in (case float_or_none env air_temp of
            Inl e \<Rightarrow> Inl e
          | Inr a \<Rightarrow>
         (case float_or_none env rel_hum of
            Inl e \<Rightarrow> Inl e
          | Inr h \<Rightarrow>
         (case float_or_none env dev_height of
            Inl e \<Rightarrow> Inl e
          | Inr d \<Rightarrow>
              Inr \<lparr>lamppost_id = (if \<not> isna lamppost then lamppost else CNone),
                   measurement_datetime = mdt,
                   air_temperature_c = a,
                   relative_humidity_pct = h,
                   device_height_m = d\<rparr>))))"

fun extract_rows ::
  "env \<Rightarrow> (search_key \<Rightarrow> string option) \<Rightarrow> string list \<Rightarrow> cell list list \<Rightarrow> pyerr + ext_row list" where
  "extract_rows env found cols [] = Inr []"
| "extract_rows env found cols (cells # rest) =
     (case extract_row env found (zip cols cells) of
        Inl e \<Rightarrow> Inl e
      | Inr x \<Rightarrow> (case extract_rows env found cols rest of Inl e \<Rightarrow> Inl e | Inr xs \<Rightarrow> Inr (x # xs)))"

text \<open>
  The type pandas gives a column. It is modelled for the identifier column, whose values
  the script later turns into text; the missing values of that column are \<^verbatim>\<open>None\<close>.
\<close>

datatype dtype = Int64 | Float64 | Bool | Object

definition is_int :: "cell \<Rightarrow> bool" where
  "is_int v = (case v of CInt i \<Rightarrow> True | _ \<Rightarrow> False)"

definition is_bool :: "cell \<Rightarrow> bool" where
  "is_bool v = (case v of CBool b \<Rightarrow> True | _ \<Rightarrow> False)"

definition is_str :: "cell \<Rightarrow> bool" where
  "is_str v = (case v of CStr s \<Rightarrow> True | _ \<Rightarrow> False)"

text \<open>
  The type \<^verbatim>\<open>pd.DataFrame(out_rows)\<close> infers for the values under one key: object when
  one of them is text; with booleans, bool when all are, object otherwise; else object
  when none holds a value, int64 when all are integers, float64 otherwise.
\<close>

definition column_dtype :: "cell list \<Rightarrow> dtype" where
  "column_dtype vs =
     (if list_ex is_str vs then Object
      else if list_ex is_bool vs then (if list_all is_bool vs then Bool else Object)
      else if list_all isna vs then Object
      else if list_all is_int vs then Int64
      else Float64)"

text \<open>
  A value as a column of the type holds it: a float64 column holds an integer as the
  float of its value (and a missing value as NaN); every other value stays as it is.
\<close>

definition as_dtype :: "dtype \<Rightarrow> cell \<Rightarrow> cell" where
  "as_dtype d v =
     (case d of
        Float64 \<Rightarrow> (case v of CInt i \<Rightarrow> CFloat (Fin (of_int i)) | _ \<Rightarrow> v)
      | _ \<Rightarrow> v)"

definition lamppost_id_astype :: "dtype \<Rightarrow> 'a ext_row_scheme \<Rightarrow> 'a ext_row_scheme" where
  "lamppost_id_astype d r = r\<lparr>lamppost_id := as_dtype d (lamppost_id r)\<rparr>"

definition pd_DataFrame :: "ext_row list \<Rightarrow> ext_row list" where
  "pd_DataFrame out_rows =
     map (lamppost_id_astype (column_dtype (map lamppost_id out_rows))) out_rows"

text \<open>
  The result is what was printed, and then the exception raised or the frame returned
  (its rows; the frame is \<^verbatim>\<open>.empty\<close> exactly when it has no row).
\<close>

definition extract_fields_from_device_df :: "env \<Rightarrow> device_df \<Rightarrow> event list \<times> (pyerr + ext_row list)" where
  "extract_fields_from_device_df env device_df =
     (case iloc_0_0 device_df of
        Inl e \<Rightarrow> ([], Inl e)
      | Inr v \<Rightarrow>
          ([PrintCell v],
           (case extract_rows env (found_columns (df_columns device_df)) (df_columns device_df)
                   (df_rows device_df) of
              Inl e \<Rightarrow> Inl e
            | Inr out_rows \<Rightarrow> Inr (pd_DataFrame out_rows))))"

subsection \<open>Latitude and longitude of a location\<close>

fun find_gdb_latlon_loop :: "row \<Rightarrow> string list \<Rightarrow> cell \<times> cell \<Rightarrow> cell \<times> cell" where
  "find_gdb_latlon_loop gdf_row [] (lat, lon) = (lat, lon)"
| "find_gdb_latlon_loop gdf_row (c # cs) (lat, lon) =
     find_gdb_latlon_loop gdf_row cs
       (if lower c = ''lp_latitude'' then row_get gdf_row (Some c) else lat,
        if lower c = ''lp_longitude'' then row_get gdf_row (Some c) else lon)"

definition find_gdb_latlon :: "row \<Rightarrow> cell \<times> cell" where
  "find_gdb_latlon gdf_row = find_gdb_latlon_loop gdf_row (map fst gdf_row) (CNone, CNone)"

subsection \<open>Collection driver\<close>

definition raise_for_status :: "http_response \<Rightarrow> pyerr + unit" where
  "raise_for_status resp =
     (if 400 \<le> status_code resp \<and> status_code resp < 600 then Inl HTTPError else Inr ())"

definition none_if_na :: "cell \<Rightarrow> cell" where
  "none_if_na v = (if \<not> isna v then v else CNone)"

definition add_columns :: "cell \<Rightarrow> cell \<Rightarrow> string \<Rightarrow> ext_row \<Rightarrow> out_row" where
  "add_columns lat lon url x =
     \<lparr>lamppost_id = lamppost_id x,
      measurement_datetime = measurement_datetime x,
      air_temperature_c = air_temperature_c x,
      relative_humidity_pct = relative_humidity_pct x,
      device_height_m = device_height_m x,
      lp_latitude = none_if_na lat,
      lp_longitude = none_if_na lon,
      source_url = CStr url\<rparr>"

text \<open>
  One round of the loop over the locations: what it prints, and then the exception that
  leaves the loop, or \<open>None\<close> for \<^verbatim>\<open>continue\<close>, or the frame appended to \<^verbatim>\<open>collected\<close>.
\<close>

definition process_location ::
  "env \<Rightarrow> nat \<Rightarrow> row \<Rightarrow> event list \<times> (pyerr + out_row list option)" where
  "process_location env idx gdf_row =
     (let url = find_active_url_from_row env gdf_row
      in if \<not> truthy url then ([NoDeviceUrl idx], Inr None)
         else
           (case (case session_get env (the url) of
                    Inl e \<Rightarrow> Inl e
                  | Inr resp \<Rightarrow> (case raise_for_status resp of Inl e \<Rightarrow> Inl e | Inr u \<Rightarrow> Inr resp)) of
              Inl e \<Rightarrow> ([Fetching idx (the url), RequestFailed idx e], Inr None)
            | Inr resp \<Rightarrow>
           (case try_parse_csv_bytes env (content resp) of
              Inl e \<Rightarrow> ([Fetching idx (the url), ParseFailed idx e], Inr None)
            | Inr device_df \<Rightarrow>
           (case extract_fields_from_device_df env device_df of
              (printed, Inl e) \<Rightarrow> (Fetching idx (the url) # printed, Inl e)
            | (printed, Inr extracted) \<Rightarrow>
                if extracted = []
                then (Fetching idx (the url) # printed @ [NoMatchingColumns idx], Inr None)
                else
                  (case find_gdb_latlon gdf_row of
                     (lat, lon) \<Rightarrow>
                       (Fetching idx (the url) # printed,
                        Inr (Some (map (add_columns lat lon (the url)) extracted))))))))"

fun collect :: "env \<Rightarrow> nat \<Rightarrow> row list \<Rightarrow> event list \<times> (pyerr + out_row list list)" where
  "collect env idx [] = ([], Inr [])"
| "collect env idx (gdf_row # rest) =
     (case process_location env idx gdf_row of
        (printed, Inl e) \<Rightarrow> (printed, Inl e)
      | (printed, Inr appended) \<Rightarrow>
          (case collect env (Suc idx) rest of
             (printed', Inl e) \<Rightarrow> (printed @ printed', Inl e)
           | (printed', Inr collected) \<Rightarrow>
               (printed @ printed',
                Inr ((case appended of None \<Rightarrow> [] | Some frame \<Rightarrow> [frame]) @ collected))))"

subsection \<open>Reconciliation and persistence\<close>

text \<open>
  The output path before the run: no file, a file \<^verbatim>\<open>pd.read_csv(dtype=str)\<close> fails on,
  or a file it reads, given as its rows on the columns of \<^verbatim>\<open>OUT_COLS\<close>.
\<close>

datatype out_file = NoFile | Unreadable | Table "out_row list"

text \<open>
  The type \<^verbatim>\<open>pd.concat(collected)\<close> gives the identifier column, from the identifier
  columns of the frames: float64 when the frames that count are int64 or float64 and
  one of them is float64; int64 or bool when all frames count and all have that type;
  object otherwise. Up to pandas 2 a frame whose column holds no value does not count.
\<close>

definition concat_dtype :: "env \<Rightarrow> cell list list \<Rightarrow> dtype" where
  "concat_dtype env cols =
     (let counted = (if concat_drops_all_na env then filter (\<lambda>vs. \<not> list_all isna vs) cols
                     else cols);
          dtypes = map column_dtype counted
      in if dtypes = [] then Object
         else if list_all (\<lambda>d. d = Int64 \<or> d = Float64) dtypes
                 \<and> list_ex (\<lambda>d. d = Float64) dtypes then Float64
         else if length counted = length cols \<and> list_all (\<lambda>d. d = Int64) dtypes then Int64
         else if length counted = length cols \<and> list_all (\<lambda>d. d = Bool) dtypes then Bool
         else Object)"

definition pd_concat :: "env \<Rightarrow> out_row list list \<Rightarrow> out_row list" where
  "pd_concat env frames =
     map (lamppost_id_astype (concat_dtype env (map (map lamppost_id) frames))) (concat frames)"

text \<open>The normalisation of \<^verbatim>\<open>measurement_datetime\<close> in the new rows.\<close>

definition normalize_datetime :: "env \<Rightarrow> out_row \<Rightarrow> out_row" where
  "normalize_datetime env r =
     r\<lparr>measurement_datetime :=
         (case measurement_datetime r of
            None \<Rightarrow> None
          | Some s \<Rightarrow> (case pd_to_datetime env s of None \<Rightarrow> None | Some t \<Rightarrow> Some (strftime_iso t)))\<rparr>"

text \<open>
  The frame that is deduplicated. The prior rows are read as text, so the \<^verbatim>\<open>pd.concat\<close>
  of the prior and the new rows makes the identifier column object and changes no value.
\<close>

definition combine :: "out_file \<Rightarrow> out_row list \<Rightarrow> event list \<times> out_row list" where
  "combine out new_df =
     (case out of
        NoFile \<Rightarrow> ([PathExists False], new_df)
      | Unreadable \<Rightarrow> ([PathExists True, ReadCsv, CouldNotReadExisting], new_df)
      | Table existing \<Rightarrow> ([PathExists True, ReadCsv], existing @ new_df))"

text \<open>
  \<^verbatim>\<open>combined["lamppost_id"].astype(str).where(combined["lamppost_id"].notna(), None)\<close>,
  on the values the column holds after the two \<^verbatim>\<open>pd.concat\<close>: the text of an integer
  that \<^verbatim>\<open>pd.concat(collected)\<close> has made a float is that of the float.
\<close>

definition lamppost_id_as_str :: "env \<Rightarrow> out_row \<Rightarrow> out_row" where
  "lamppost_id_as_str env r =
     r\<lparr>lamppost_id :=
         (if \<not> isna (lamppost_id r) then CStr (py_str env (lamppost_id r)) else CNone)\<rparr>"

definition dedup_key :: "out_row \<Rightarrow> string option \<times> cell" where
  "dedup_key r = (measurement_datetime r, lamppost_id r)"

text \<open>
  \<^verbatim>\<open>drop_duplicates(subset, keep="first")\<close>: a row stays unless a row before it has the
  same values in the columns of \<open>subset\<close> (the function \<open>key\<close>); pandas takes missing values as equal there.
\<close>

fun drop_duplicates_seen :: "('a \<Rightarrow> 'k) \<Rightarrow> 'k list \<Rightarrow> 'a list \<Rightarrow> 'a list" where
  "drop_duplicates_seen key seen [] = []"
| "drop_duplicates_seen key seen (r # rs) =
     (if key r \<in> set seen then drop_duplicates_seen key seen rs
      else r # drop_duplicates_seen key (key r # seen) rs)"

definition drop_duplicates :: "('a \<Rightarrow> 'k) \<Rightarrow> 'a list \<Rightarrow> 'a list" where
  "drop_duplicates key rs = drop_duplicates_seen key [] rs"

definition reconcile :: "env \<Rightarrow> out_file \<Rightarrow> out_row list \<Rightarrow> event list \<times> out_row list" where
  "reconcile env out new_df =
     (case combine out new_df of
        (events, combined) \<Rightarrow>
          (let combined' = map (lamppost_id_as_str env) combined;
               deduped = drop_duplicates dedup_key combined'
           in (events @ [DedupReport (length combined' - length deduped) (length deduped),
                         WriteCsv deduped, Saved],
               deduped)))"

subsection \<open>The run\<close>

datatype outcome = Returned | SysExit nat | Raised pyerr

text \<open>
  \<^verbatim>\<open>main\<close>, given the rows of the layer (\<open>None\<close> when the layer cannot be read) and
  the state of the output path: how the run ends, and what it printed and did to the
  output path, in order.
\<close>

definition main :: "env \<Rightarrow> row list option \<Rightarrow> out_file \<Rightarrow> outcome \<times> event list" where
  "main env gdf out =
     (case gdf of
        None \<Rightarrow> (SysExit 1, [CannotReadLayer])
      | Some gdf_rows \<Rightarrow>
          (case collect env 0 gdf_rows of
             (printed, Inl e) \<Rightarrow> (Raised e, printed)
           | (printed, Inr collected) \<Rightarrow>
               if collected = [] then (Returned, printed @ [NoRowsCollected])
               else
                 (let new_df = map (normalize_datetime env) (pd_concat env collected)
                  in (Returned, printed @ fst (reconcile env out new_df)))))"

text \<open>The events that read, test or write the output path.\<close>

definition touches_output :: "event \<Rightarrow> bool" where
  "touches_output e = (case e of PathExists b \<Rightarrow> True | ReadCsv \<Rightarrow> True | WriteCsv rows \<Rightarrow> True | _ \<Rightarrow> False)"

subsection \<open>Example inputs\<close>

text \<open>
  Four feeds: the one-row feed of the specification's end-to-end example, a feed with a
  header line and no row, a feed none of whose columns is one the script looks for, and
  a feed whose temperature cell is text that is no number.
\<close>

definition example_feed :: device_df where
  "example_feed =
     \<lparr>df_columns = [''Lamppost ID'', ''Data measurement Year'', ''Data measurement Month'',
                    ''Data measurement Day'', ''Air temperature (C)'',
                    ''Relative humidity (%)'', ''Device height (m)''],
      df_rows = [[CStr ''LP1'', CInt 2024, CInt 3, CInt 5,
                  CFloat (Fin (43 / 2)), CFloat (Fin 60), CFloat (Fin (16 / 5))]]\<rparr>"

definition header_only_feed :: device_df where
  "header_only_feed = \<lparr>df_columns = [''Lamppost ID''], df_rows = []\<rparr>"

definition unrelated_feed :: device_df where
  "unrelated_feed = \<lparr>df_columns = [''foo''], df_rows = [[CStr ''bar'']]\<rparr>"

definition text_temperature_feed :: device_df where
  "text_temperature_feed = \<lparr>df_columns = [''Air temperature (C)''], df_rows = [[CStr ''ERR'']]\<rparr>"

text \<open>
  Two feeds with a numeric identifier: one row with the integer 123; two rows, the
  second without identifier, so that the first has the float 124.
\<close>

definition integer_id_feed :: device_df where
  "integer_id_feed =
     \<lparr>df_columns = [''Lamppost ID'', ''Site'', ''Data measurement Year'',
                    ''Data measurement Month'', ''Data measurement Day''],
      df_rows = [[CInt 123, CStr ''north'', CInt 2024, CInt 3, CInt 5]]\<rparr>"

definition float_id_feed :: device_df where
  "float_id_feed =
     \<lparr>df_columns = [''Lamppost ID'', ''Site'', ''Data measurement Year'',
                    ''Data measurement Month'', ''Data measurement Day''],
      df_rows = [[CFloat (Fin 124), CStr ''south'', CInt 2024, CInt 3, CInt 5],
                 [CNone, CStr ''south'', CInt 2024, CInt 3, CInt 5]]\<rparr>"

text \<open>
  An environment for the examples. Six URLs answer with status 200 and one of the feeds
  above, \<^verbatim>\<open>http://e\<close> answers with status 404 and every other request fails; \<^verbatim>\<open>float\<close>
  reads the text \<^verbatim>\<open>7.0\<close> and rejects every other text, as it does \<^verbatim>\<open>ERR\<close>; the text of
  the floats 123 and 124 is \<^verbatim>\<open>123.0\<close> and \<^verbatim>\<open>124.0\<close>, that of the others is not needed
  and left empty; pandas is a version up to 2.
\<close>

definition example_env :: env where
  "example_env =
     \<lparr>float_of_str = (\<lambda>s. if s = ''7.0'' then Some (Fin 7) else None),
      str_of_float =
        (\<lambda>f. if f = Fin 123 then ''123.0'' else if f = Fin 124 then ''124.0'' else []),
      pd_to_datetime =
        (\<lambda>s. if s = ''2024-03-05T00:00:00''
             then Some \<lparr>dt_year = 2024, dt_month = 3, dt_day = 5,
                        dt_hour = 0, dt_minute = 0, dt_second = 0\<rparr>
             else None),
      session_get =
        (\<lambda>u. if u = ''http://a'' then Inr \<lparr>status_code = 200, content = ''A''\<rparr>
             else if u = ''http://b'' then Inr \<lparr>status_code = 200, content = ''B''\<rparr>
             else if u = ''http://c'' then Inr \<lparr>status_code = 200, content = ''C''\<rparr>
             else if u = ''http://d'' then Inr \<lparr>status_code = 200, content = ''D''\<rparr>
             else if u = ''http://f'' then Inr \<lparr>status_code = 200, content = ''F''\<rparr>
             else if u = ''http://g'' then Inr \<lparr>status_code = 200, content = ''G''\<rparr>
             else if u = ''http://e'' then Inr \<lparr>status_code = 404, content = []\<rparr>
             else Inl RequestException),
      decode_utf8 = Inr,
      pd_read_csv =
        (\<lambda>t. if t = ''A'' then Inr example_feed
             else if t = ''B'' then Inr header_only_feed
             else if t = ''C'' then Inr unrelated_feed
             else if t = ''D'' then Inr text_temperature_feed
             else if t = ''F'' then Inr integer_id_feed
             else if t = ''G'' then Inr float_id_feed
             else Inl ParserError),
      concat_drops_all_na = True\<rparr>"

text \<open>A column map with the year, month and day columns resolved and no other.\<close>

definition ymd_columns :: "search_key \<Rightarrow> string option" where
  "ymd_columns k =
     (case k of
        Measurement_year \<Rightarrow> Some ''Y''
      | Measurement_month \<Rightarrow> Some ''M''
      | Measurement_day \<Rightarrow> Some ''D''
      | _ \<Rightarrow> None)"

subsection \<open>Properties of the column matcher\<close>

lemma all_substrings_in_iff:
  "all_substrings_in ss col \<longleftrightarrow> (\<forall>s \<in> set ss. \<exists>p q. col = p @ s @ q)"
  by (induction ss) (auto simp: sublist_def)

lemma find_column_by_substring_find:
  "find_column_by_substring cols ss = find (all_substrings_in ss) cols"
  by (induction cols) auto

text \<open>
  Claim C2. The result of \<^const>\<open>find_column_by_substring\<close> is the first column, in input
  order, whose name contains every required substring as a literal (case-sensitive)
  substring; it is absent exactly when no column qualifies; a result that is present is
  an element of the input list and contains every required substring.
\<close>

theorem find_column_by_substring_first:
  "(find_column_by_substring cols ss = None \<longleftrightarrow>
      (\<forall>c \<in> set cols. \<not> (\<forall>s \<in> set ss. \<exists>p q. c = p @ s @ q)))
   \<and> (\<forall>c. find_column_by_substring cols ss = Some c \<longleftrightarrow>
      (\<exists>i < length cols. cols ! i = c
         \<and> (\<forall>s \<in> set ss. \<exists>p q. c = p @ s @ q)
         \<and> (\<forall>j < i. \<not> (\<forall>s \<in> set ss. \<exists>p q. cols ! j = p @ s @ q))))
   \<and> (\<forall>c. find_column_by_substring cols ss = Some c \<longrightarrow>
         c \<in> set cols \<and> (\<forall>s \<in> set ss. \<exists>p q. c = p @ s @ q))"
proof (intro conjI allI)
  show "find_column_by_substring cols ss = None \<longleftrightarrow>
      (\<forall>c \<in> set cols. \<not> (\<forall>s \<in> set ss. \<exists>p q. c = p @ s @ q))"
    by (auto simp: find_column_by_substring_find find_None_iff all_substrings_in_iff)
next
  fix c
  show "find_column_by_substring cols ss = Some c \<longleftrightarrow>
      (\<exists>i < length cols. cols ! i = c
         \<and> (\<forall>s \<in> set ss. \<exists>p q. c = p @ s @ q)
         \<and> (\<forall>j < i. \<not> (\<forall>s \<in> set ss. \<exists>p q. cols ! j = p @ s @ q)))"
    unfolding find_column_by_substring_find find_Some_iff all_substrings_in_iff [symmetric]
    by blast
next
  fix c
  show "find_column_by_substring cols ss = Some c \<longrightarrow>
         c \<in> set cols \<and> (\<forall>s \<in> set ss. \<exists>p q. c = p @ s @ q)"
    unfolding find_column_by_substring_find find_Some_iff all_substrings_in_iff [symmetric]
    by auto
qed

theorem find_column_by_substring_first_witness:
  "find_column_by_substring
     [''Air pressure'', ''Air temperature (C)'', ''Air temperature (F)''] [''Air temperature'']
     = Some ''Air temperature (C)''
   \<and> ''Air temperature (C)'' \<in> set [''Air pressure'', ''Air temperature (C)'', ''Air temperature (F)'']
   \<and> (\<exists>p q. ''Air temperature (C)'' = p @ ''Air temperature'' @ q)"
proof -
  have found: "find_column_by_substring
     [''Air pressure'', ''Air temperature (C)'', ''Air temperature (F)''] [''Air temperature'']
     = Some ''Air temperature (C)''"
    by (simp add: sublist_code)
  with find_column_by_substring_first
    [of "[''Air pressure'', ''Air temperature (C)'', ''Air temperature (F)'']" "[''Air temperature'']"]
  show ?thesis by auto
qed

subsection \<open>The decimal text of a number\<close>

lemma str_of_nat_one_digit: "n < 10 \<Longrightarrow> str_of_nat n = [digit_char n]"
  by (subst str_of_nat.simps) simp

lemma str_of_nat_more_digits:
  "10 \<le> n \<Longrightarrow> str_of_nat n = str_of_nat (n div 10) @ [digit_char n]"
  by (subst str_of_nat.simps) simp



subsection \<open>Properties of drop_duplicates\<close>

lemma drop_duplicates_seen_filter:
  "set seen = S \<union> set seen' \<Longrightarrow>
   drop_duplicates_seen key seen rs = filter (\<lambda>r. key r \<notin> S) (drop_duplicates_seen key seen' rs)"
proof (induction rs arbitrary: seen seen')
  case Nil
  then show ?case by simp
next
  case (Cons a rs)
  have step: "set (key a # seen) = S \<union> set (key a # seen')"
    using Cons.prems by auto
  show ?case
  proof (cases "key a \<in> set seen'")
    case True
    then show ?thesis using Cons.prems Cons.IH [OF Cons.prems] by auto
  next
    case out: False
    show ?thesis
    proof (cases "key a \<in> S")
      case True
      have "set seen = S \<union> set (key a # seen')" using True Cons.prems by auto
      from Cons.IH [OF this] show ?thesis using True out Cons.prems by auto
    next
      case False
      then show ?thesis using out Cons.prems Cons.IH [OF step] by auto
    qed
  qed
qed

lemma drop_duplicates_seen_keys:
  "key ` set (drop_duplicates_seen key seen rs) = key ` set rs - set seen"
  by (induction rs arbitrary: seen) auto

lemma drop_duplicates_seen_distinct:
  "distinct (map key (drop_duplicates_seen key seen rs))"
proof (induction rs arbitrary: seen)
  case Nil
  then show ?case by simp
next
  case (Cons a rs)
  have "key a \<notin> key ` set (drop_duplicates_seen key (key a # seen) rs)"
    by (simp add: drop_duplicates_seen_keys)
  with Cons.IH show ?case by auto
qed

lemma drop_duplicates_seen_first:
  "r \<in> set (drop_duplicates_seen key seen rs) \<Longrightarrow> find (\<lambda>x. key x = key r) rs = Some r"
proof (induction rs arbitrary: seen)
  case Nil
  then show ?case by simp
next
  case (Cons a rs)
  have notseen: "key x \<notin> set s" if "x \<in> set (drop_duplicates_seen key s rs)" for x s
    using that drop_duplicates_seen_keys [of key s rs] by blast
  show ?case
  proof (cases "key a \<in> set seen")
    case True
    with Cons.prems have r: "r \<in> set (drop_duplicates_seen key seen rs)" by simp
    from notseen [OF r] True have "key a \<noteq> key r" by auto
    with Cons.IH [OF r] show ?thesis by simp
  next
    case False
    show ?thesis
    proof (cases "r = a")
      case True
      then show ?thesis by simp
    next
      case ne: False
      with False Cons.prems have r: "r \<in> set (drop_duplicates_seen key (key a # seen) rs)" by simp
      from notseen [OF r] have "key a \<noteq> key r" by auto
      with Cons.IH [OF r] show ?thesis by simp
    qed
  qed
qed

lemma drop_duplicates_seen_append:
  "drop_duplicates_seen key seen (xs @ ys) =
   drop_duplicates_seen key seen xs @ drop_duplicates_seen key (map key xs @ seen) ys"
proof (induction xs arbitrary: seen)
  case Nil
  then show ?case by simp
next
  case (Cons a xs)
  have same: "drop_duplicates_seen key s ys = drop_duplicates_seen key s' ys" if "set s = set s'" for s s'
    using drop_duplicates_seen_filter [of s "{}" s' key ys] that by simp
  show ?case
  proof (cases "key a \<in> set seen")
    case True
    have "set (map key xs @ seen) = set (map key (a # xs) @ seen)" using True by auto
    from same [OF this] show ?thesis using True Cons.IH [of seen] by simp
  next
    case False
    have "set (map key xs @ key a # seen) = set (map key (a # xs) @ seen)" by auto
    from same [OF this] show ?thesis using False Cons.IH [of "key a # seen"] by simp
  qed
qed

lemma drop_duplicates_distinct: "distinct (map key (drop_duplicates key rs))"
  by (simp add: drop_duplicates_def drop_duplicates_seen_distinct)

lemma drop_duplicates_keys: "key ` set (drop_duplicates key rs) = key ` set rs"
  by (simp add: drop_duplicates_def drop_duplicates_seen_keys)

lemma drop_duplicates_first:
  "r \<in> set (drop_duplicates key rs) \<Longrightarrow> find (\<lambda>x. key x = key r) rs = Some r"
  unfolding drop_duplicates_def by (rule drop_duplicates_seen_first)

lemma drop_duplicates_append:
  "drop_duplicates key (xs @ ys) =
   drop_duplicates key xs @ filter (\<lambda>r. key r \<notin> key ` set xs) (drop_duplicates key ys)"
proof -
  have "drop_duplicates_seen key (map key xs @ []) ys =
        filter (\<lambda>r. key r \<notin> key ` set xs) (drop_duplicates_seen key [] ys)"
    by (rule drop_duplicates_seen_filter) simp
  then show ?thesis
    by (simp add: drop_duplicates_def drop_duplicates_seen_append)
qed

subsection \<open>What a run prints and writes\<close>

lemma extract_fields_events:
  assumes "extract_fields_from_device_df env df = (printed, r)" and "e \<in> set printed"
  shows "\<not> touches_output e"
proof -
  from assms have "\<exists>v. e = PrintCell v"
    by (auto simp: extract_fields_from_device_df_def split: sum.splits)
  then show ?thesis by (auto simp: touches_output_def)
qed

lemma process_location_events:
  assumes "process_location env idx gdf_row = (printed, r)" and "e \<in> set printed"
  shows "\<not> touches_output e"
proof -
  have "(\<exists>i. e = NoDeviceUrl i) \<or> (\<exists>i u. e = Fetching i u) \<or> (\<exists>i x. e = RequestFailed i x)
      \<or> (\<exists>i x. e = ParseFailed i x) \<or> (\<exists>i. e = NoMatchingColumns i)
      \<or> (\<exists>df p q. extract_fields_from_device_df env df = (p, q) \<and> e \<in> set p)"
    using assms unfolding process_location_def Let_def
    by (auto split: sum.splits prod.splits if_splits) blast+
  then show ?thesis
    using extract_fields_events by (auto simp: touches_output_def)
qed

lemma collect_events:
  "collect env idx gdf_rows = (printed, r) \<Longrightarrow> e \<in> set printed \<Longrightarrow> \<not> touches_output e"
proof (induction gdf_rows arbitrary: idx printed r)
  case Nil
  then show ?case by simp
next
  case (Cons gdf_row rest)
  obtain p1 r1 where one: "process_location env idx gdf_row = (p1, r1)" by fastforce
  obtain p2 r2 where others: "collect env (Suc idx) rest = (p2, r2)" by fastforce
  from Cons.prems(1) one others have "set printed \<subseteq> set p1 \<union> set p2"
    by (auto split: sum.splits)
  with Cons.prems(2) have "e \<in> set p1 \<or> e \<in> set p2" by auto
  then show ?case
    using process_location_events [OF one] Cons.IH [OF others] by blast
qed

lemma reconcile_events:
  "WriteCsv ds \<in> set (fst (reconcile env out new_df)) \<Longrightarrow> ds = snd (reconcile env out new_df)"
  by (auto simp: reconcile_def combine_def Let_def split: prod.splits out_file.splits)

lemma reconcile_rows:
  "snd (reconcile env out new_df) =
     drop_duplicates dedup_key (map (lamppost_id_as_str env) (snd (combine out new_df)))"
  by (simp add: reconcile_def Let_def split: prod.splits)

lemma main_written:
  assumes "WriteCsv ds \<in> set (snd (main env gdf out))"
  shows "\<exists>new_df. ds = snd (reconcile env out new_df)"
proof -
  have no: "WriteCsv ds \<notin> set printed" if "collect env idx gdf_rows = (printed, r)" for idx gdf_rows printed r
    using collect_events [OF that, of "WriteCsv ds"] by (auto simp: touches_output_def)
  show ?thesis
    using assms
    by (auto simp: main_def Let_def split: option.splits prod.splits sum.splits if_splits
        dest: reconcile_events no)
qed


subsection \<open>The data set of a run\<close>

text \<open>The definitions a run on a concrete input unfolds.\<close>

lemmas run_defs =
  main_def collect.simps process_location_def find_active_url_from_row_def DEVICE_URL_COLUMNS_def
  find_active_url_in.simps isna_def strip_def is_space_def py_str_def truthy_def raise_for_status_def
  try_parse_csv_bytes_def extract_fields_from_device_df_def iloc_0_0_def found_columns_def
  extract_rows.simps extract_row_def float_or_none_def py_float_def py_int_def row_get_def
  build_measurement_datetime_from_row_using_columns_def build_measurement_datetime_try_def
  to_int_safe_def or_zero_def datetime_new_def c_int_def valid_datetime_def days_in_month_def
  is_leap_def strftime_iso_def pad2_def str_of_int_def digit_char_def find_gdb_latlon_def
  find_gdb_latlon_loop.simps lower_def lower_char_def add_columns_def none_if_na_def
  normalize_datetime_def combine_def lamppost_id_as_str_def dedup_key_def drop_duplicates_def
  drop_duplicates_seen.simps reconcile_def example_env_def example_feed_def header_only_feed_def
  unrelated_feed_def text_temperature_feed_def integer_id_feed_def float_id_feed_def
  column_dtype_def as_dtype_def lamppost_id_astype_def pd_DataFrame_def concat_dtype_def
  pd_concat_def is_int_def is_bool_def is_str_def sublist_code Let_def


lemma distinct_map_filter_le_1:
  "distinct (map f xs) \<Longrightarrow> length (filter (\<lambda>x. f x = k) xs) \<le> Suc 0"
proof (induction xs)
  case Nil
  then show ?case by simp
next
  case (Cons a xs)
  show ?case
  proof (cases "f a = k")
    case True
    with Cons.prems have "\<forall>x \<in> set xs. f x \<noteq> k"
      by (metis distinct.simps(2) imageI list.simps(9) set_map)
    then have "filter (\<lambda>x. f x = k) xs = []"
      by (simp add: filter_empty_conv)
    with True show ?thesis by simp
  next
    case False
    with Cons show ?thesis by simp
  qed
qed

lemma reconcile_lamppost_id:
  assumes "r \<in> set (snd (reconcile env out new_df))" and "isna (lamppost_id r)"
  shows "lamppost_id r = CNone"
proof -
  from assms(1) have "dedup_key r \<in> dedup_key ` set (snd (reconcile env out new_df))" by blast
  then have "dedup_key r \<in> dedup_key ` set (map (lamppost_id_as_str env) (snd (combine out new_df)))"
    by (simp only: reconcile_rows drop_duplicates_keys)
  then obtain x where "lamppost_id r = lamppost_id (lamppost_id_as_str env x)"
    by (auto simp: dedup_key_def)
  with assms(2) show ?thesis
    by (auto simp: lamppost_id_as_str_def isna_def split: if_splits)
qed

lemma drop_duplicates_subset: "set (drop_duplicates key rs) \<subseteq> set rs"
proof
  fix r
  assume "r \<in> set (drop_duplicates key rs)"
  then have "find (\<lambda>x. key x = key r) rs = Some r"
    by (rule drop_duplicates_first)
  then show "r \<in> set rs"
    by (metis find_Some_iff nth_mem)
qed

lemma reconcile_rows_coerced:
  assumes "r \<in> set (snd (reconcile env out new_df))"
  shows "\<exists>x \<in> set (snd (combine out new_df)).
     r = x\<lparr>lamppost_id :=
           (if isna (lamppost_id x) then CNone else CStr (py_str env (lamppost_id x)))\<rparr>"
proof -
  from assms have "r \<in> set (drop_duplicates dedup_key
      (map (lamppost_id_as_str env) (snd (combine out new_df))))"
    by (simp add: reconcile_rows)
  with drop_duplicates_subset [of dedup_key]
  have "r \<in> set (map (lamppost_id_as_str env) (snd (combine out new_df)))"
    by blast
  then show ?thesis
    by (auto simp: lamppost_id_as_str_def)
qed

lemma reconcile_ids_text:
  assumes "r \<in> set (snd (reconcile env out new_df))"
  shows "lamppost_id r = CNone \<or> (\<exists>t. lamppost_id r = CStr t)"
  using reconcile_rows_coerced [OF assms] by (auto split: if_splits)

lemma dedup_key_collide:
  "dedup_key (lamppost_id_as_str env a) = dedup_key (lamppost_id_as_str env b) \<longleftrightarrow>
     measurement_datetime a = measurement_datetime b
     \<and> (if isna (lamppost_id a) then isna (lamppost_id b)
        else \<not> isna (lamppost_id b) \<and> py_str env (lamppost_id a) = py_str env (lamppost_id b))"
  by (simp add: dedup_key_def lamppost_id_as_str_def)

lemma main_collected:
  assumes "collect env 0 gdf_rows = (printed, Inr collected)" and "collected \<noteq> []"
  shows "main env (Some gdf_rows) out =
       (Returned,
        printed @ fst (reconcile env out (map (normalize_datetime env) (pd_concat env collected))))
     \<and> WriteCsv (snd (reconcile env out (map (normalize_datetime env) (pd_concat env collected))))
         \<in> set (snd (main env (Some gdf_rows) out))"
  using assms by (simp add: main_def Let_def reconcile_def split: prod.splits)

text \<open>
  Claim C1. Every data set a run writes is unique on the pair (measurement_datetime,
  lamppost_id), and its identifiers are text or absent. The data set is the result of the
  deduplication of the prior rows followed by the new rows, the new rows being those of
  \<^verbatim>\<open>pd.concat(collected)\<close> with their datetime normalised, and every identifier that is
  not missing replaced by its text. Two rows collide when their datetime is equal and
  their identifiers are both missing or have the same text. The rows that stay are, for
  each pair, the first row of that frame with the pair, so a prior row is never dropped
  for a new one and a new row stays only when no prior row has its pair.
\<close>

theorem final_dataset_unique_first_wins:
  "(WriteCsv ds \<in> set (snd (main env gdf out)) \<longrightarrow>
      distinct (map dedup_key ds)
      \<and> (\<forall>r \<in> set ds. lamppost_id r = CNone \<or> (\<exists>t. lamppost_id r = CStr t)))
   \<and> (collect env 0 gdf_rows = (printed, Inr collected) \<and> collected \<noteq> [] \<longrightarrow>
        main env (Some gdf_rows) out =
          (Returned,
           printed @ fst (reconcile env out (map (normalize_datetime env) (pd_concat env collected))))
        \<and> WriteCsv (snd (reconcile env out (map (normalize_datetime env) (pd_concat env collected))))
            \<in> set (snd (main env (Some gdf_rows) out)))
   \<and> snd (combine (Table existing) new_df) = existing @ new_df
   \<and> snd (reconcile env out new_df) =
       drop_duplicates dedup_key (map (lamppost_id_as_str env) (snd (combine out new_df)))
   \<and> (\<forall>r \<in> set (snd (reconcile env out new_df)). \<exists>x \<in> set (snd (combine out new_df)).
         r = x\<lparr>lamppost_id :=
               (if isna (lamppost_id x) then CNone else CStr (py_str env (lamppost_id x)))\<rparr>)
   \<and> (dedup_key (lamppost_id_as_str env a) = dedup_key (lamppost_id_as_str env b) \<longleftrightarrow>
        measurement_datetime a = measurement_datetime b
        \<and> (if isna (lamppost_id a) then isna (lamppost_id b)
           else \<not> isna (lamppost_id b)
                \<and> py_str env (lamppost_id a) = py_str env (lamppost_id b)))
   \<and> distinct (map dedup_key (snd (reconcile env out new_df)))
   \<and> (\<forall>r \<in> set (snd (reconcile env out new_df)).
         find (\<lambda>x. dedup_key x = dedup_key r)
           (map (lamppost_id_as_str env) (snd (combine out new_df))) = Some r)
   \<and> dedup_key ` set (snd (reconcile env out new_df)) =
       dedup_key ` set (map (lamppost_id_as_str env) (snd (combine out new_df)))
   \<and> snd (reconcile env (Table existing) new_df) =
       drop_duplicates dedup_key (map (lamppost_id_as_str env) existing)
       @ filter (\<lambda>r. dedup_key r \<notin> dedup_key ` set (map (lamppost_id_as_str env) existing))
           (drop_duplicates dedup_key (map (lamppost_id_as_str env) new_df))"
proof -
  have written: "WriteCsv ds \<in> set (snd (main env gdf out)) \<longrightarrow>
      distinct (map dedup_key ds)
      \<and> (\<forall>r \<in> set ds. lamppost_id r = CNone \<or> (\<exists>t. lamppost_id r = CStr t))"
  proof
    assume "WriteCsv ds \<in> set (snd (main env gdf out))"
    then obtain new_df' where "ds = snd (reconcile env out new_df')"
      using main_written by blast
    then show "distinct (map dedup_key ds)
      \<and> (\<forall>r \<in> set ds. lamppost_id r = CNone \<or> (\<exists>t. lamppost_id r = CStr t))"
      using reconcile_ids_text [of _ env out new_df']
      by (simp add: reconcile_rows drop_duplicates_distinct)
  qed
  have run: "collect env 0 gdf_rows = (printed, Inr collected) \<and> collected \<noteq> [] \<longrightarrow>
        main env (Some gdf_rows) out =
          (Returned,
           printed @ fst (reconcile env out (map (normalize_datetime env) (pd_concat env collected))))
        \<and> WriteCsv (snd (reconcile env out (map (normalize_datetime env) (pd_concat env collected))))
            \<in> set (snd (main env (Some gdf_rows) out))"
    using main_collected [of env gdf_rows printed collected out] by blast
  have prior_first: "snd (combine (Table existing) new_df) = existing @ new_df"
    by (simp add: combine_def)
  have rows: "snd (reconcile env out new_df) =
       drop_duplicates dedup_key (map (lamppost_id_as_str env) (snd (combine out new_df)))"
    by (rule reconcile_rows)
  have coerced: "\<forall>r \<in> set (snd (reconcile env out new_df)). \<exists>x \<in> set (snd (combine out new_df)).
         r = x\<lparr>lamppost_id :=
               (if isna (lamppost_id x) then CNone else CStr (py_str env (lamppost_id x)))\<rparr>"
    using reconcile_rows_coerced by blast
  have collide: "dedup_key (lamppost_id_as_str env a) = dedup_key (lamppost_id_as_str env b) \<longleftrightarrow>
        measurement_datetime a = measurement_datetime b
        \<and> (if isna (lamppost_id a) then isna (lamppost_id b)
           else \<not> isna (lamppost_id b)
                \<and> py_str env (lamppost_id a) = py_str env (lamppost_id b))"
    by (rule dedup_key_collide)
  have unique: "distinct (map dedup_key (snd (reconcile env out new_df)))"
    by (simp add: reconcile_rows drop_duplicates_distinct)
  have first: "\<forall>r \<in> set (snd (reconcile env out new_df)).
         find (\<lambda>x. dedup_key x = dedup_key r)
           (map (lamppost_id_as_str env) (snd (combine out new_df))) = Some r"
    by (auto simp: reconcile_rows intro: drop_duplicates_first)
  have keys: "dedup_key ` set (snd (reconcile env out new_df)) =
       dedup_key ` set (map (lamppost_id_as_str env) (snd (combine out new_df)))"
    by (simp only: reconcile_rows drop_duplicates_keys)
  have prior_wins: "snd (reconcile env (Table existing) new_df) =
       drop_duplicates dedup_key (map (lamppost_id_as_str env) existing)
       @ filter (\<lambda>r. dedup_key r \<notin> dedup_key ` set (map (lamppost_id_as_str env) existing))
           (drop_duplicates dedup_key (map (lamppost_id_as_str env) new_df))"
    by (simp add: reconcile_rows combine_def drop_duplicates_append)
  show ?thesis
    by (intro conjI) (fact written run prior_first rows coerced collide unique first keys prior_wins)+
qed

text \<open>
  A prior row with the identifier \<^verbatim>\<open>123\<close> as text, and a feed with the integer 123 at
  the same datetime: the new row collides with the prior one, which alone is written.
\<close>

theorem final_dataset_unique_first_wins_witness:
  "main example_env (Some [[(''DEVICE_01_DATA_URL'', CStr ''http://f'')]])
     (Table [\<lparr>lamppost_id = CStr ''123'', measurement_datetime = Some ''2024-03-05T00:00:00'',
       air_temperature_c = CStr ''20.0'', relative_humidity_pct = CStr ''55.0'',
       device_height_m = CStr ''3.2'', lp_latitude = CStr ''1.23'', lp_longitude = CStr ''4.56'',
       source_url = CStr ''http://old''\<rparr>])
   = (Returned,
      [Fetching 0 ''http://f'', PrintCell (CInt 123), PathExists True, ReadCsv, DedupReport 1 1,
       WriteCsv [\<lparr>lamppost_id = CStr ''123'', measurement_datetime = Some ''2024-03-05T00:00:00'',
       air_temperature_c = CStr ''20.0'', relative_humidity_pct = CStr ''55.0'',
       device_height_m = CStr ''3.2'', lp_latitude = CStr ''1.23'', lp_longitude = CStr ''4.56'',
       source_url = CStr ''http://old''\<rparr>],
       Saved])
   \<and> distinct (map dedup_key [\<lparr>lamppost_id = CStr ''123'', measurement_datetime = Some ''2024-03-05T00:00:00'',
       air_temperature_c = CStr ''20.0'', relative_humidity_pct = CStr ''55.0'',
       device_height_m = CStr ''3.2'', lp_latitude = CStr ''1.23'', lp_longitude = CStr ''4.56'',
       source_url = CStr ''http://old''\<rparr>])"
proof -
  let ?prior = "\<lparr>lamppost_id = CStr ''123'', measurement_datetime = Some ''2024-03-05T00:00:00'',
       air_temperature_c = CStr ''20.0'', relative_humidity_pct = CStr ''55.0'',
       device_height_m = CStr ''3.2'', lp_latitude = CStr ''1.23'', lp_longitude = CStr ''4.56'',
       source_url = CStr ''http://old''\<rparr>"
  let ?gdf = "Some [[(''DEVICE_01_DATA_URL'', CStr ''http://f'')]]"
  have run: "main example_env ?gdf (Table [?prior])
   = (Returned,
      [Fetching 0 ''http://f'', PrintCell (CInt 123), PathExists True, ReadCsv, DedupReport 1 1,
       WriteCsv [?prior], Saved])"
    by (simp add: run_defs str_of_nat_more_digits str_of_nat_one_digit)
  then have "WriteCsv [?prior] \<in> set (snd (main example_env ?gdf (Table [?prior])))"
    by simp
  with final_dataset_unique_first_wins [where ds = "[?prior]" and env = example_env
      and gdf = ?gdf and out = "Table [?prior]"]
  have "distinct (map dedup_key [?prior])" by blast
  with run show ?thesis by blast
qed

text \<open>
  The same prior row, and two feeds: the integer 123, and the float 124 above a row
  without identifier. \<^verbatim>\<open>pd.concat\<close> makes the identifier column float64, the integer is
  written as \<^verbatim>\<open>123.0\<close> and does not collide with the prior \<^verbatim>\<open>123\<close>.
\<close>

lemma integer_id_among_float_ids:
  "main example_env
     (Some [[(''DEVICE_01_DATA_URL'', CStr ''http://f'')],
            [(''DEVICE_01_DATA_URL'', CStr ''http://g'')]])
     (Table [\<lparr>lamppost_id = CStr ''123'', measurement_datetime = Some ''2024-03-05T00:00:00'',
       air_temperature_c = CStr ''20.0'', relative_humidity_pct = CStr ''55.0'',
       device_height_m = CStr ''3.2'', lp_latitude = CStr ''1.23'', lp_longitude = CStr ''4.56'',
       source_url = CStr ''http://old''\<rparr>])
   = (Returned,
      [Fetching 0 ''http://f'', PrintCell (CInt 123),
       Fetching 1 ''http://g'', PrintCell (CFloat (Fin 124)),
       PathExists True, ReadCsv, DedupReport 0 4,
       WriteCsv
         [\<lparr>lamppost_id = CStr ''123'', measurement_datetime = Some ''2024-03-05T00:00:00'',
       air_temperature_c = CStr ''20.0'', relative_humidity_pct = CStr ''55.0'',
       device_height_m = CStr ''3.2'', lp_latitude = CStr ''1.23'', lp_longitude = CStr ''4.56'',
       source_url = CStr ''http://old''\<rparr>,
          \<lparr>lamppost_id = CStr ''123.0'', measurement_datetime = Some ''2024-03-05T00:00:00'',
       air_temperature_c = CNone, relative_humidity_pct = CNone, device_height_m = CNone,
       lp_latitude = CNone, lp_longitude = CNone, source_url = CStr ''http://f''\<rparr>,
          \<lparr>lamppost_id = CStr ''124.0'', measurement_datetime = Some ''2024-03-05T00:00:00'',
       air_temperature_c = CNone, relative_humidity_pct = CNone, device_height_m = CNone,
       lp_latitude = CNone, lp_longitude = CNone, source_url = CStr ''http://g''\<rparr>,
          \<lparr>lamppost_id = CNone, measurement_datetime = Some ''2024-03-05T00:00:00'',
       air_temperature_c = CNone, relative_humidity_pct = CNone, device_height_m = CNone,
       lp_latitude = CNone, lp_longitude = CNone, source_url = CStr ''http://g''\<rparr>],
       Saved])"
  by (simp add: run_defs str_of_nat_more_digits str_of_nat_one_digit)

text \<open>
  Claim C9. Missing key values are equal to each other for the deduplication: of the
  rows whose measurement_datetime and lamppost_id are both missing, at most one is in
  the data set a run writes, whatever their other columns hold.
\<close>

theorem absent_keys_deduplicated:
  "(WriteCsv ds \<in> set (snd (main env gdf out)) \<longrightarrow>
      length (filter (\<lambda>r. measurement_datetime r = None \<and> isna (lamppost_id r)) ds) \<le> 1)
   \<and> length (filter (\<lambda>r. measurement_datetime r = None \<and> isna (lamppost_id r))
        (snd (reconcile env out new_df))) \<le> 1"
proof -
  have one: "length (filter (\<lambda>r. measurement_datetime r = None \<and> isna (lamppost_id r))
        (snd (reconcile env out' new_df'))) \<le> 1" for out' new_df'
  proof -
    let ?ds = "snd (reconcile env out' new_df')"
    have "filter (\<lambda>r. measurement_datetime r = None \<and> isna (lamppost_id r)) ?ds
        = filter (\<lambda>r. dedup_key r = (None, CNone)) ?ds"
      by (rule filter_cong) (auto simp: dedup_key_def isna_def dest: reconcile_lamppost_id)
    moreover have "distinct (map dedup_key ?ds)"
      by (simp add: reconcile_rows drop_duplicates_distinct)
    ultimately show ?thesis
      using distinct_map_filter_le_1 [of dedup_key ?ds "(None, CNone)"] by simp
  qed
  show ?thesis
  proof (intro conjI impI)
    assume "WriteCsv ds \<in> set (snd (main env gdf out))"
    then obtain new_df' where "ds = snd (reconcile env out new_df')"
      using main_written by blast
    then show "length (filter (\<lambda>r. measurement_datetime r = None \<and> isna (lamppost_id r)) ds) \<le> 1"
      using one by simp
  next
    show "length (filter (\<lambda>r. measurement_datetime r = None \<and> isna (lamppost_id r))
        (snd (reconcile env out new_df))) \<le> 1"
      by (rule one)
  qed
qed

theorem absent_keys_deduplicated_witness:
  "main example_env
     (Some [[(''DEVICE_01_DATA_URL'', CStr ''http://c''), (''lp_latitude'', CInt 1)],
            [(''DEVICE_02_DATA_URL'', CStr ''http://c''), (''lp_latitude'', CInt 2)]]) NoFile
   = (Returned,
      [Fetching 0 ''http://c'', PrintCell (CStr ''bar''),
       Fetching 1 ''http://c'', PrintCell (CStr ''bar''),
       PathExists False, DedupReport 1 1,
       WriteCsv
         [\<lparr>lamppost_id = CNone, measurement_datetime = None, air_temperature_c = CNone,
           relative_humidity_pct = CNone, device_height_m = CNone, lp_latitude = CInt 1,
           lp_longitude = CNone, source_url = CStr ''http://c''\<rparr>],
       Saved])
   \<and> length (filter (\<lambda>r. measurement_datetime r = None \<and> isna (lamppost_id r))
         [\<lparr>lamppost_id = CNone, measurement_datetime = None, air_temperature_c = CNone,
           relative_humidity_pct = CNone, device_height_m = CNone, lp_latitude = CInt 1,
           lp_longitude = CNone, source_url = CStr ''http://c''\<rparr>]) \<le> 1"
proof -
  let ?gdf = "Some [[(''DEVICE_01_DATA_URL'', CStr ''http://c''), (''lp_latitude'', CInt 1)],
            [(''DEVICE_02_DATA_URL'', CStr ''http://c''), (''lp_latitude'', CInt 2)]]"
  let ?row = "\<lparr>lamppost_id = CNone, measurement_datetime = None, air_temperature_c = CNone,
           relative_humidity_pct = CNone, device_height_m = CNone, lp_latitude = CInt 1,
           lp_longitude = CNone, source_url = CStr ''http://c''\<rparr>"
  have run: "main example_env ?gdf NoFile
   = (Returned,
      [Fetching 0 ''http://c'', PrintCell (CStr ''bar''),
       Fetching 1 ''http://c'', PrintCell (CStr ''bar''),
       PathExists False, DedupReport 1 1, WriteCsv [?row], Saved])"
    by (simp add: run_defs)
  then have "WriteCsv [?row] \<in> set (snd (main example_env ?gdf NoFile))" by simp
  with absent_keys_deduplicated [of "[?row]" example_env ?gdf NoFile]
  have "length (filter (\<lambda>r. measurement_datetime r = None \<and> isna (lamppost_id r)) [?row]) \<le> 1"
    by blast
  with run show ?thesis by blast
qed

text \<open>
  Claim C10. When the loop over the locations ends with nothing collected, the run
  returns normally, its last line is the notice that no device rows were collected, and
  it neither tests, reads nor writes the output path.
\<close>

theorem no_rows_collected_leaves_output:
  assumes "collect env 0 gdf_rows = (printed, Inr [])"
  shows "main env (Some gdf_rows) out = (Returned, printed @ [NoRowsCollected])
     \<and> filter touches_output (snd (main env (Some gdf_rows) out)) = []"
proof -
  have run: "main env (Some gdf_rows) out = (Returned, printed @ [NoRowsCollected])"
    using assms by (simp add: main_def)
  have "\<not> touches_output e" if "e \<in> set printed" for e
    using collect_events [OF assms that] .
  then have "filter touches_output printed = []"
    by (simp add: filter_empty_conv)
  with run show ?thesis by (simp add: touches_output_def)
qed

theorem no_rows_collected_leaves_output_witness:
  "main example_env
     (Some [[(''DEVICE_01_DATA_URL'', CStr ''http://e'')],
            [(''DEVICE_04_DATA_URL'', CStr ''  ''), (''DEVICE_02_DATA_URL'', CNone)]])
     (Table [\<lparr>lamppost_id = CStr ''LP1'', measurement_datetime = None, air_temperature_c = CNone,
              relative_humidity_pct = CNone, device_height_m = CNone, lp_latitude = CNone,
              lp_longitude = CNone, source_url = CStr ''http://old''\<rparr>])
   = (Returned, [Fetching 0 ''http://e'', RequestFailed 0 HTTPError, NoDeviceUrl 1, NoRowsCollected])"
proof -
  have "collect example_env 0
     [[(''DEVICE_01_DATA_URL'', CStr ''http://e'')],
      [(''DEVICE_04_DATA_URL'', CStr ''  ''), (''DEVICE_02_DATA_URL'', CNone)]]
   = ([Fetching 0 ''http://e'', RequestFailed 0 HTTPError, NoDeviceUrl 1], Inr [])"
    by (simp add: run_defs)
  from no_rows_collected_leaves_output [OF this] show ?thesis by simp
qed

subsection \<open>Properties of the datetime assembler\<close>



lemma datetime_new_invalid:
  "\<not> valid_datetime y mo da h mi s \<Longrightarrow>
     datetime_new y mo da h mi s = Inl ValueError \<or> datetime_new y mo da h mi s = Inl OverflowError"
  by (simp add: datetime_new_def)






lemma build_measurement_datetime_absent:
  "\<not> truthy (cols_map Measurement_year) \<or> \<not> truthy (cols_map Measurement_month)
     \<or> \<not> truthy (cols_map Measurement_day)
     \<or> to_int_safe env (row_get row (cols_map Measurement_year)) = None
     \<or> to_int_safe env (row_get row (cols_map Measurement_month)) = None
     \<or> to_int_safe env (row_get row (cols_map Measurement_day)) = None
   \<Longrightarrow> build_measurement_datetime_try env row cols_map = Inr None"
  by (auto simp: build_measurement_datetime_try_def Let_def)

lemma build_measurement_datetime_try_present:
  assumes "truthy (cols_map Measurement_year)" "truthy (cols_map Measurement_month)"
    "truthy (cols_map Measurement_day)"
    "to_int_safe env (row_get row (cols_map Measurement_year)) = Some y"
    "to_int_safe env (row_get row (cols_map Measurement_month)) = Some mo"
    "to_int_safe env (row_get row (cols_map Measurement_day)) = Some da"
  shows "build_measurement_datetime_try env row cols_map =
     (case datetime_new y mo da
        (or_zero (to_int_safe env (row_get row (cols_map Measurement_hour))))
        (or_zero (to_int_safe env (row_get row (cols_map Measurement_minute))))
        (or_zero (to_int_safe env (row_get row (cols_map Measurement_second)))) of
        Inl e \<Rightarrow> Inl e
      | Inr dt \<Rightarrow> Inr (Some (strftime_iso dt)))"
  using assms by (simp add: build_measurement_datetime_try_def Let_def)





text \<open>
  Claim C4. When the year, month and day cells convert to integers that are no date of
  the calendar, the datetime constructor raises inside the \<^verbatim>\<open>try\<close>, the handler catches
  it, and the assembler returns absent.
\<close>

theorem invalid_calendar_date_is_absent:
  assumes "to_int_safe env (row_get row (cols_map Measurement_year)) = Some y"
    "to_int_safe env (row_get row (cols_map Measurement_month)) = Some mo"
    "to_int_safe env (row_get row (cols_map Measurement_day)) = Some da"
    "\<not> (1 \<le> y \<and> y \<le> 9999 \<and> 1 \<le> mo \<and> mo \<le> 12 \<and> 1 \<le> da \<and> da \<le> days_in_month y mo)"
  shows "build_measurement_datetime_from_row_using_columns env row cols_map = None
     \<and> (truthy (cols_map Measurement_year) \<and> truthy (cols_map Measurement_month)
        \<and> truthy (cols_map Measurement_day) \<longrightarrow>
          build_measurement_datetime_try env row cols_map = Inl ValueError
          \<or> build_measurement_datetime_try env row cols_map = Inl OverflowError)"
proof (cases "truthy (cols_map Measurement_year) \<and> truthy (cols_map Measurement_month)
        \<and> truthy (cols_map Measurement_day)")
  case True
  let ?h = "or_zero (to_int_safe env (row_get row (cols_map Measurement_hour)))"
  let ?mi = "or_zero (to_int_safe env (row_get row (cols_map Measurement_minute)))"
  let ?s = "or_zero (to_int_safe env (row_get row (cols_map Measurement_second)))"
  from True have cols: "truthy (cols_map Measurement_year)" "truthy (cols_map Measurement_month)"
    "truthy (cols_map Measurement_day)"
    by simp_all
  from assms(4) have "\<not> valid_datetime y mo da ?h ?mi ?s"
    by (auto simp: valid_datetime_def)
  from datetime_new_invalid [OF this]
  have raised: "build_measurement_datetime_try env row cols_map = Inl ValueError
        \<or> build_measurement_datetime_try env row cols_map = Inl OverflowError"
    by (auto simp: build_measurement_datetime_try_present [OF cols assms(1-3)])
  then show ?thesis
    by (auto simp: build_measurement_datetime_from_row_using_columns_def)
next
  case False
  then have "build_measurement_datetime_try env row cols_map = Inr None"
    by (auto intro: build_measurement_datetime_absent)
  with False show ?thesis
    by (simp add: build_measurement_datetime_from_row_using_columns_def)
qed

theorem invalid_calendar_date_is_absent_witness:
  "build_measurement_datetime_from_row_using_columns example_env
     [(''Y'', CInt 2024), (''M'', CInt 13), (''D'', CInt 5)] ymd_columns = None
   \<and> build_measurement_datetime_try example_env
     [(''Y'', CInt 2024), (''M'', CInt 13), (''D'', CInt 5)] ymd_columns = Inl ValueError"
proof -
  let ?row = "[(''Y'', CInt 2024), (''M'', CInt 13), (''D'', CInt 5)]"
  have cols: "truthy (ymd_columns Measurement_year)" "truthy (ymd_columns Measurement_month)"
      "truthy (ymd_columns Measurement_day)"
    by (simp_all add: ymd_columns_def truthy_def)
  have cells: "to_int_safe example_env (row_get ?row (ymd_columns Measurement_year)) = Some 2024"
      "to_int_safe example_env (row_get ?row (ymd_columns Measurement_month)) = Some 13"
      "to_int_safe example_env (row_get ?row (ymd_columns Measurement_day)) = Some 5"
    by (simp_all add: ymd_columns_def row_get_def to_int_safe_def isna_def py_float_def py_int_def)
  have invalid: "\<not> (1 \<le> (2024::int) \<and> (2024::int) \<le> 9999 \<and> 1 \<le> (13::int) \<and> (13::int) \<le> 12
      \<and> 1 \<le> (5::int) \<and> 5 \<le> days_in_month 2024 13)"
    by simp
  have raised: "build_measurement_datetime_try example_env ?row ymd_columns = Inl ValueError"
    by (simp add: run_defs ymd_columns_def)
  from invalid_calendar_date_is_absent [OF cells invalid] cols raised
  show ?thesis by simp
qed

subsection \<open>Properties of find_gdb_latlon\<close>

lemma find_snoc:
  "find P (xs @ [x]) = (case find P xs of None \<Rightarrow> (if P x then Some x else None) | Some y \<Rightarrow> Some y)"
  by (induction xs) auto

lemma find_gdb_latlon_loop_last:
  "find_gdb_latlon_loop gdf_row cs (lat, lon) =
     (case find (\<lambda>c. lower c = ''lp_latitude'') (rev cs) of
        None \<Rightarrow> lat | Some c \<Rightarrow> row_get gdf_row (Some c),
      case find (\<lambda>c. lower c = ''lp_longitude'') (rev cs) of
        None \<Rightarrow> lon | Some c \<Rightarrow> row_get gdf_row (Some c))"
proof (induction cs arbitrary: lat lon)
  case Nil
  then show ?case by simp
next
  case (Cons c cs)
  show ?case
    by (simp only: find_gdb_latlon_loop.simps Cons.IH rev.simps find_snoc)
       (simp split: option.splits)
qed

lemma find_rev_labels:
  assumes "distinct (map fst r)"
  shows "(case find P (rev (map fst r)) of None \<Rightarrow> CNone | Some c \<Rightarrow> row_get r (Some c))
       = (case find (\<lambda>(c, v). P c) (rev r) of None \<Rightarrow> CNone | Some (c, v) \<Rightarrow> v)"
proof -
  have get: "row_get r (Some c) = v" if "(c, v) \<in> set r" for c v
    using assms that by (simp add: row_get_def)
  have "find P (map fst xs) = map_option fst (find (\<lambda>(c, v). P c) xs)" for xs :: row
    by (induction xs) auto
  then have labels: "find P (rev (map fst r)) = map_option fst (find (\<lambda>(c, v). P c) (rev r))"
    by (simp only: rev_map)
  show ?thesis
  proof (cases "find (\<lambda>(c, v). P c) (rev r)")
    case None
    with labels show ?thesis by simp
  next
    case (Some cv)
    then have "cv \<in> set r" by (metis find_Some_iff nth_mem set_rev)
    with get [of "fst cv" "snd cv"] labels Some show ?thesis
      by (simp add: case_prod_beta)
  qed
qed

text \<open>
  Claim C8, as the code has it. Latitude and longitude are the cells of the last field
  whose name is \<^verbatim>\<open>lp_latitude\<close>, respectively \<^verbatim>\<open>lp_longitude\<close>, up to case, and absent
  when no field name matches.
\<close>

theorem find_gdb_latlon_last_match:
  "fst (find_gdb_latlon gdf_row) =
     (case find (\<lambda>c. lower c = ''lp_latitude'') (rev (map fst gdf_row)) of
        None \<Rightarrow> CNone | Some c \<Rightarrow> row_get gdf_row (Some c))
   \<and> snd (find_gdb_latlon gdf_row) =
     (case find (\<lambda>c. lower c = ''lp_longitude'') (rev (map fst gdf_row)) of
        None \<Rightarrow> CNone | Some c \<Rightarrow> row_get gdf_row (Some c))
   \<and> (distinct (map fst gdf_row) \<longrightarrow>
        fst (find_gdb_latlon gdf_row) =
          (case find (\<lambda>(c, v). lower c = ''lp_latitude'') (rev gdf_row) of
             None \<Rightarrow> CNone | Some (c, v) \<Rightarrow> v)
        \<and> snd (find_gdb_latlon gdf_row) =
          (case find (\<lambda>(c, v). lower c = ''lp_longitude'') (rev gdf_row) of
             None \<Rightarrow> CNone | Some (c, v) \<Rightarrow> v))"
proof -
  have lat: "fst (find_gdb_latlon gdf_row) =
     (case find (\<lambda>c. lower c = ''lp_latitude'') (rev (map fst gdf_row)) of
        None \<Rightarrow> CNone | Some c \<Rightarrow> row_get gdf_row (Some c))"
    by (simp add: find_gdb_latlon_def find_gdb_latlon_loop_last)
  have lon: "snd (find_gdb_latlon gdf_row) =
     (case find (\<lambda>c. lower c = ''lp_longitude'') (rev (map fst gdf_row)) of
        None \<Rightarrow> CNone | Some c \<Rightarrow> row_get gdf_row (Some c))"
    by (simp add: find_gdb_latlon_def find_gdb_latlon_loop_last)
  show ?thesis
    using lat lon find_rev_labels [of gdf_row "\<lambda>c. lower c = ''lp_latitude''"]
      find_rev_labels [of gdf_row "\<lambda>c. lower c = ''lp_longitude''"]
    by simp
qed

theorem find_gdb_latlon_last_match_witness:
  "find_gdb_latlon
     [(''OBJECTID'', CInt 7), (''Lp_Latitude'', CFloat (Fin (123 / 100))),
      (''LP_LONGITUDE'', CFloat (Fin (114 / 25))), (''lp_latitude'', CFloat (Fin 2))]
   = (CFloat (Fin 2), CFloat (Fin (114 / 25)))"
proof -
  let ?row = "[(''OBJECTID'', CInt 7), (''Lp_Latitude'', CFloat (Fin (123 / 100))),
      (''LP_LONGITUDE'', CFloat (Fin (114 / 25))), (''lp_latitude'', CFloat (Fin 2))]"
  have labels: "distinct (map fst ?row)" by simp
  with find_gdb_latlon_last_match [of ?row]
  have "fst (find_gdb_latlon ?row) =
          (case find (\<lambda>(c, v). lower c = ''lp_latitude'') (rev ?row) of
             None \<Rightarrow> CNone | Some (c, v) \<Rightarrow> v)
        \<and> snd (find_gdb_latlon ?row) =
          (case find (\<lambda>(c, v). lower c = ''lp_longitude'') (rev ?row) of
             None \<Rightarrow> CNone | Some (c, v) \<Rightarrow> v)"
    by blast
  then have "fst (find_gdb_latlon ?row) = CFloat (Fin 2)
        \<and> snd (find_gdb_latlon ?row) = CFloat (Fin (114 / 25))"
    by (simp add: lower_def lower_char_def)
  then show ?thesis by (simp add: prod_eq_iff)
qed

text \<open>Two field names match \<^verbatim>\<open>lp_latitude\<close>; the latitude is the cell of the second.\<close>

theorem find_gdb_latlon_first_match_counterexample:
  "lower ''LP_LATITUDE'' = ''lp_latitude'' \<and> lower ''lp_latitude'' = ''lp_latitude''
   \<and> find_gdb_latlon [(''LP_LATITUDE'', CInt 1), (''lp_latitude'', CInt 2)] = (CInt 2, CNone)"
  by (simp add: run_defs)

subsection \<open>Feeds the extractor is not protected against\<close>

text \<open>
  A location without URL, a failed request, a bad status and a feed that does not parse
  end the round with \<^verbatim>\<open>continue\<close>. An exception leaves the loop only from the
  extractor: IndexError from a frame without a row, ValueError from \<^verbatim>\<open>float\<close>. A frame
  the extractor returns is never empty.
\<close>

lemma process_location_skips:
  "\<not> truthy (find_active_url_from_row env gdf_row) \<Longrightarrow>
     process_location env idx gdf_row = ([NoDeviceUrl idx], Inr None)"
  "find_active_url_from_row env gdf_row = Some url \<Longrightarrow> url \<noteq> [] \<Longrightarrow>
   session_get env url = Inl e \<Longrightarrow>
     process_location env idx gdf_row = ([Fetching idx url, RequestFailed idx e], Inr None)"
  "find_active_url_from_row env gdf_row = Some url \<Longrightarrow> url \<noteq> [] \<Longrightarrow>
   session_get env url = Inr resp \<Longrightarrow> 400 \<le> status_code resp \<Longrightarrow> status_code resp < 600 \<Longrightarrow>
     process_location env idx gdf_row = ([Fetching idx url, RequestFailed idx HTTPError], Inr None)"
  "find_active_url_from_row env gdf_row = Some url \<Longrightarrow> url \<noteq> [] \<Longrightarrow>
   session_get env url = Inr resp \<Longrightarrow> \<not> (400 \<le> status_code resp \<and> status_code resp < 600) \<Longrightarrow>
   try_parse_csv_bytes env (content resp) = Inl e \<Longrightarrow>
     process_location env idx gdf_row = ([Fetching idx url, ParseFailed idx e], Inr None)"
  by (simp_all add: process_location_def Let_def truthy_def raise_for_status_def)

lemma process_location_raises:
  assumes "process_location env idx gdf_row = (printed, Inl e)"
  shows "\<exists>df p. extract_fields_from_device_df env df = (p, Inl e)"
  using assms unfolding process_location_def Let_def
  by (auto split: sum.splits prod.splits if_splits)

lemma extract_rows_raises:
  "extract_rows env found cols rs = Inl e \<Longrightarrow> e = ValueError"
proof (induction rs)
  case Nil
  then show ?case by simp
next
  case (Cons cells rest)
  have one: "extract_row env found r = Inl x \<Longrightarrow> x = ValueError" for r x
    by (auto simp: extract_row_def Let_def float_or_none_def py_float_def isna_def
        split: sum.splits if_splits cell.splits option.splits)
  from Cons one show ?case
    by (auto split: sum.splits)
qed

lemma extract_fields_raises:
  assumes "extract_fields_from_device_df env df = (p, Inl e)"
  shows "e = IndexError \<and> iloc_0_0 df = Inl IndexError \<or> e = ValueError"
proof (cases "iloc_0_0 df")
  case (Inl x)
  then have "x = IndexError"
    by (auto simp: iloc_0_0_def split: list.splits)
  with Inl assms show ?thesis
    by (simp add: extract_fields_from_device_df_def)
next
  case (Inr v)
  with assms have "extract_rows env (found_columns (df_columns df)) (df_columns df) (df_rows df) = Inl e"
    by (simp add: extract_fields_from_device_df_def split: sum.splits)
  then show ?thesis
    by (simp add: extract_rows_raises)
qed

lemma extract_fields_never_empty:
  "extract_fields_from_device_df env df = (p, Inr extracted) \<Longrightarrow> extracted \<noteq> []"
proof -
  assume returned: "extract_fields_from_device_df env df = (p, Inr extracted)"
  have rows: "extract_rows env found cols (r # rs) \<noteq> Inr []" for found cols r rs
    by (auto split: sum.splits)
  from returned obtain r rs where "df_rows df = r # rs"
    by (cases "df_rows df") (auto simp: extract_fields_from_device_df_def iloc_0_0_def)
  with returned obtain out_rows where
    "extract_rows env (found_columns (df_columns df)) (df_columns df) (r # rs) = Inr out_rows"
    and "extracted = pd_DataFrame out_rows"
    by (auto simp: extract_fields_from_device_df_def split: sum.splits)
  with rows [of "found_columns (df_columns df)" "df_columns df" r rs]
  show "extracted \<noteq> []"
    by (auto simp: pd_DataFrame_def)
qed

text \<open>
  Claim C5 at a run over two locations, the first with a feed that has a header line
  and no row: \<^verbatim>\<open>device_df.iloc[0,0]\<close> raises IndexError outside every \<^verbatim>\<open>try\<close>, the run
  ends with that exception and the second location is never fetched.
\<close>

theorem header_only_feed_aborts_run:
  "main example_env
     (Some [[(''DEVICE_01_DATA_URL'', CStr ''http://b'')],
            [(''DEVICE_01_DATA_URL'', CStr ''http://a'')]]) NoFile
   = (Raised IndexError, [Fetching 0 ''http://b''])"
  by (simp add: run_defs)

text \<open>
  Claim C6 at a feed whose temperature cell is the text \<^verbatim>\<open>ERR\<close>: the extractor raises
  ValueError instead of giving an absent temperature, and the run ends with it.
\<close>

theorem text_temperature_raises:
  "extract_fields_from_device_df example_env text_temperature_feed
     = ([PrintCell (CStr ''ERR'')], Inl ValueError)
   \<and> main example_env (Some [[(''DEVICE_01_DATA_URL'', CStr ''http://d'')]]) NoFile
     = (Raised ValueError, [Fetching 0 ''http://d'', PrintCell (CStr ''ERR'')])"
  by (simp add: run_defs)

text \<open>
  Claim C7 at a feed with the one column \<^verbatim>\<open>foo\<close>: no search key finds a column, the
  extractor still returns one row, all of its values absent, the frame is not empty, and
  the run writes that row with the source URL.
\<close>

theorem unrelated_feed_contributes_row:
  "map (found_columns (df_columns unrelated_feed))
     [Lamppost_id, Measurement_year, Measurement_month, Measurement_day, Measurement_hour,
      Measurement_minute, Measurement_second, Air_temperature, Relative_humidity, Device_height]
     = [None, None, None, None, None, None, None, None, None, None]
   \<and> extract_fields_from_device_df example_env unrelated_feed
     = ([PrintCell (CStr ''bar'')],
        Inr [\<lparr>lamppost_id = CNone, measurement_datetime = None, air_temperature_c = CNone,
              relative_humidity_pct = CNone, device_height_m = CNone\<rparr>])
   \<and> main example_env (Some [[(''DEVICE_01_DATA_URL'', CStr ''http://c'')]]) NoFile
     = (Returned,
        [Fetching 0 ''http://c'', PrintCell (CStr ''bar''), PathExists False, DedupReport 0 1,
         WriteCsv
           [\<lparr>lamppost_id = CNone, measurement_datetime = None, air_temperature_c = CNone,
             relative_humidity_pct = CNone, device_height_m = CNone, lp_latitude = CNone,
             lp_longitude = CNone, source_url = CStr ''http://c''\<rparr>],
         Saved])"
  by (simp add: run_defs)

end
